theory Spec2Isabelle
  imports Main
begin

section \<open>Python values: exceptions and outcomes\<close>

text \<open>
  The exception classes the source names or can meet.  \<open>TimeoutError\<close> is the builtin
  class raised on line 112; \<open>FutureTimeout\<close> is \<open>concurrent.futures.TimeoutError\<close>,
  imported under that name on line 6: a class of its own, as it is in the Python
  versions the source was written for (from 3.11 on it is the builtin class under a
  second name: see \<open>python\<close> below).  \<open>KeyboardInterrupt\<close>, \<open>SystemExit\<close> and
  \<open>OtherBaseException\<close> derive from \<open>BaseException\<close> only; the other classes named here
  derive from \<open>Exception\<close>.  \<open>Subclass name bases\<close> is a class declared with the given
  base classes (at least one: what is raised derives from \<open>BaseException\<close>): its
  instances are instances of each of them.
\<close>

datatype exn_class =
    TimeoutError
  | FutureTimeout
  | TypeError
  | ZeroDivisionError
  | ValueError
  | OverflowError
  | OtherException string
  | KeyboardInterrupt
  | SystemExit
  | OtherBaseException string
  | Subclass string "exn_class list"

text \<open>What \<open>except Exception\<close> catches.\<close>

fun is_Exception :: "exn_class \<Rightarrow> bool" where
  "is_Exception KeyboardInterrupt = False"
| "is_Exception SystemExit = False"
| "is_Exception (OtherBaseException _) = False"
| "is_Exception (Subclass _ bases) = list_ex is_Exception bases"
| "is_Exception _ = True"

text \<open>
  The interpreter, as far as the source depends on it.  From Python 3.11 on
  \<open>concurrent.futures.TimeoutError\<close> is the builtin \<open>TimeoutError\<close> itself
  (\<open>futures_timeout_is_builtin\<close>); before, it is a class of its own.
  \<open>TIMEOUT_MAX\<close> is \<open>threading.TIMEOUT_MAX\<close>, the longest timeout a blocking wait
  accepts.
\<close>

record python =
  futures_timeout_is_builtin :: bool
  TIMEOUT_MAX :: int

text \<open>
  What \<open>except FutureTimeout\<close> catches: the instances of the class, those of its
  subclasses, and those of the builtin \<open>TimeoutError\<close> where the two are one class.
\<close>

fun isinstance_FutureTimeout :: "python \<Rightarrow> exn_class \<Rightarrow> bool" where
  "isinstance_FutureTimeout py FutureTimeout = True"
| "isinstance_FutureTimeout py TimeoutError = futures_timeout_is_builtin py"
| "isinstance_FutureTimeout py (Subclass _ bases) = list_ex (isinstance_FutureTimeout py) bases"
| "isinstance_FutureTimeout py _ = False"

text \<open>An exception object: its class and its message.\<close>

datatype exn = Exn exn_class string

fun class_of :: "exn \<Rightarrow> exn_class" where
  "class_of (Exn c _) = c"

text \<open>A call either returns a value or raises.\<close>

datatype 'r outcome = Return 'r | Raise exn

text \<open>The class of what a call raised, if it raised.\<close>

definition class_of_outcome :: "'r outcome \<Rightarrow> exn_class option" where
  "class_of_outcome x = (case x of Return _ \<Rightarrow> None | Raise e \<Rightarrow> Some (class_of e))"

section \<open>Effects\<close>

text \<open>
  The calls the source makes on the standard library and on its collaborators, in the
  order it makes them.  \<open>Executor_shutdown\<close> is \<open>executor.shutdown()\<close>, which waits for
  the submitted work: it is the only call of \<open>Heartbeat.cancel\<close> that can block.
  \<open>Callback_failure_logged\<close> is the report of a failed callback that the specification
  asks of the loop; the source has no statement that makes it.
\<close>

datatype thread = Caller_thread | Worker_thread

datatype event =
    Executor_new "nat option"
  | Executor_submit string
  | Executor_shutdown
  | Sleep int
  | Function_called
  | Callback_failure_logged
  | Probe_called
  | Timer_start
  | Timer_cancel
  | Logger_exception string
  | Runner_method_called
  | Context_to_dict
  | Future_result_called int

section \<open>Heartbeat\<close>

text \<open>
  \<open>ThreadPoolExecutor\<close> as far as the source uses it: the \<open>max_workers\<close> it was made
  with, the callables submitted, and whether \<open>shutdown\<close> was called.
\<close>

record executor =
  max_workers :: "nat option"
  submitted :: "string list"
  is_shutdown :: bool

definition ThreadPoolExecutor :: "nat option \<Rightarrow> executor" where
  "ThreadPoolExecutor mw = \<lparr>max_workers = mw, submitted = [], is_shutdown = False\<rparr>"

definition submit :: "executor \<Rightarrow> string \<Rightarrow> executor" where
  "submit ex name = ex\<lparr>submitted := submitted ex @ [name]\<rparr>"

definition shutdown :: "executor \<Rightarrow> executor" where
  "shutdown ex = ex\<lparr>is_shutdown := True\<rparr>"

text \<open>
  The \<open>Heartbeat\<close> object.  \<open>exit_flag\<close> is the attribute \<open>_exit\<close>; \<open>function'\<close> is the
  attribute \<open>function\<close>, a no-argument callable acting on a world \<open>'s\<close>.  The attributes
  \<open>executor\<close> and \<open>fut\<close> do not exist until \<open>start\<close> sets them: \<open>None\<close> is
  \<open>hasattr(self, "executor") = False\<close>.  \<open>fut\<close> is the index of the submitted looper.
\<close>

record 's Heartbeat =
  interval :: int
  rate :: int
  function' :: "'s \<Rightarrow> bool outcome \<times> 's"
  exit_flag :: bool
  executor :: "executor option"
  fut :: "nat option"

definition Heartbeat_init :: "int \<Rightarrow> ('s \<Rightarrow> bool outcome \<times> 's) \<Rightarrow> 's Heartbeat" where
  "Heartbeat_init i f =
     \<lparr>interval = i, rate = min i 1, function' = f, exit_flag = False,
      executor = None, fut = None\<rparr>"

text \<open>
  \<open>start\<close>: a new pool of two workers, the looper submitted to it.  The looper itself
  runs on the pool's thread and is \<open>looper\<close> below.
\<close>

definition start :: "'s Heartbeat \<Rightarrow> 's Heartbeat \<times> event list" where
  "start hb =
     (let ex = submit (ThreadPoolExecutor (Some 2)) ''looper''
      in (hb\<lparr>executor := Some ex, fut := Some 0\<rparr>,
          [Executor_new (Some 2), Executor_submit ''looper'']))"

text \<open>
  \<open>cancel\<close>: set \<open>_exit\<close>, and shut the executor down if the attribute exists.  The
  source has no raising statement here; the outcome is kept in the result so that this
  is a statement and not a convention.
\<close>

definition cancel :: "'s Heartbeat \<Rightarrow> unit outcome \<times> 's Heartbeat \<times> event list" where
  "cancel hb =
     (let hb1 = hb\<lparr>exit_flag := True\<rparr>
      in case executor hb1 of
           None \<Rightarrow> (Return (), hb1, [])
         | Some ex \<Rightarrow> (Return (), hb1\<lparr>executor := Some (shutdown ex)\<rparr>, [Executor_shutdown]))"

text \<open>\<open>cancel()\<close> called \<open>n\<close> times in a row on the same object, stopping at a raise.\<close>

fun cancel_repeatedly ::
  "nat \<Rightarrow> 's Heartbeat \<Rightarrow> unit outcome \<times> 's Heartbeat \<times> event list" where
  "cancel_repeatedly 0 hb = (Return (), hb, [])"
| "cancel_repeatedly (Suc n) hb =
     (case cancel hb of
        (Raise e, hb', evs) \<Rightarrow> (Raise e, hb', evs)
      | (Return _, hb', evs) \<Rightarrow>
          (case cancel_repeatedly n hb' of (r, hb'', evs') \<Rightarrow> (r, hb'', evs @ evs')))"

subsection \<open>The looper\<close>

text \<open>Python's \<open>%\<close> on integers: the sign follows the divisor, zero raises.\<close>

definition py_mod :: "int \<Rightarrow> int \<Rightarrow> int outcome" where
  "py_mod a b =
     (if b = 0 then Raise (Exn ZeroDivisionError ''integer division or modulo by zero'')
      else Return (a mod b))"

text \<open>\<open>round\<close> of an integer is that integer.\<close>

definition py_round :: "int \<Rightarrow> int" where
  "py_round x = x"

text \<open>\<open>time.sleep\<close>: a negative length raises.\<close>

definition sleep :: "int \<Rightarrow> unit outcome \<times> event list" where
  "sleep secs =
     (if secs < 0 then (Raise (Exn ValueError ''sleep length must be non-negative''), [])
      else (Return (), [Sleep secs]))"

text \<open>
  The loop of \<open>looper\<close>.  The flag \<open>_exit\<close> is written by the owner's thread, so what
  the guard reads is not the loop's to decide: the first argument is the number of times
  the guard finds the flag still unset before it finds it set.  The state is the counter
  \<open>iters\<close>, the world the callback acts on, and the effects so far.  An exception leaves
  the loop with the state as it was at the raise.
\<close>

fun looper ::
  "nat \<Rightarrow> 's Heartbeat \<Rightarrow> int \<times> 's \<times> event list \<Rightarrow> unit outcome \<times> int \<times> 's \<times> event list" where
  "looper 0 hb st = (Return (), st)"
| "looper (Suc n) hb (iters, w, evs) =
     (case py_mod iters (rate hb) of
        Raise e \<Rightarrow> (Raise e, iters, w, evs)
      | Return m \<Rightarrow>
          (case (if py_round m = 0
                 then (case function' hb w of (r, w') \<Rightarrow> (r, w', evs @ [Function_called]))
                 else (Return True, w, evs)) of
             (Raise e, w1, evs1) \<Rightarrow> (Raise e, iters, w1, evs1)
           | (Return _, w1, evs1) \<Rightarrow>
               (case py_mod (iters + 1) (interval hb) of
                  Raise e \<Rightarrow> (Raise e, iters, w1, evs1)
                | Return iters' \<Rightarrow>
                    (case sleep (rate hb) of
                       (Raise e, evs2) \<Rightarrow> (Raise e, iters', w1, evs1 @ evs2)
                     | (Return _, evs2) \<Rightarrow> looper n hb (iters', w1, evs1 @ evs2)))))"



section \<open>run_with_heartbeat\<close>

text \<open>
  The decorated method \<open>inner\<close>.  \<open>self\<close> is a world \<open>'s\<close>; \<open>heartbeat'\<close> is the bound
  method \<open>self._heartbeat\<close> and \<open>runner_method\<close> the wrapped method, both acting on that
  world.  \<open>heartbeat_interval\<close> is \<open>prefect.config.cloud.heartbeat_interval\<close>, a
  configuration value taken as a parameter.  The result (\<open>wrapped\<close> below) is the
  outcome of \<open>inner\<close>, the world, the \<open>timer\<close> object as \<open>inner\<close> leaves it, and the calls
  \<open>inner\<close> made on its own thread, in order.  The looper that \<open>timer.start()\<close> submits runs on the
  executor's thread; \<open>inner\<close> never reads \<open>timer.fut\<close>, so its control flow does not
  depend on what the looper does, and the looper's own effects are those of \<open>looper\<close>.
\<close>

definition zombie_message :: string where
  "zombie_message = ''Heartbeat failed to start.  This could result in a zombie run.''"

text \<open>
  Lines 62 to 68, the inner \<open>try\<close>: the probe, then \<open>timer.start()\<close> if it returned
  true; \<open>except Exception\<close> logs and goes on.  An exception that \<open>except Exception\<close>
  does not catch leaves the block: it is the first component, \<open>Some e\<close>.
\<close>

definition preflight ::
  "('s \<Rightarrow> bool outcome \<times> 's) \<Rightarrow> 's Heartbeat \<Rightarrow> 's
     \<Rightarrow> exn option \<times> 's \<times> 's Heartbeat \<times> event list" where
  "preflight heartbeat' timer self =
     (case heartbeat' self of
        (Return b, self1) \<Rightarrow>
          (if b
           then (case start timer of
                   (timer1, evs) \<Rightarrow> (None, self1, timer1, [Probe_called, Timer_start] @ evs))
           else (None, self1, timer, [Probe_called]))
      | (Raise e, self1) \<Rightarrow>
          (if is_Exception (class_of e)
           then (None, self1, timer, [Probe_called, Logger_exception zombie_message])
           else (Some e, self1, timer, [Probe_called])))"

text \<open>Lines 60 to 71: the outer \<open>try\<close> with its \<open>finally\<close>.\<close>

record ('s, 'r) wrapped =
  returned :: "'r outcome"
  self_after :: 's
  timer :: "'s Heartbeat"
  calls :: "event list"

definition inner ::
  "int \<Rightarrow> ('s \<Rightarrow> bool outcome \<times> 's) \<Rightarrow> ('a list \<Rightarrow> (string \<rightharpoonup> 'a) \<Rightarrow> 's \<Rightarrow> 'r outcome \<times> 's)
     \<Rightarrow> 's \<Rightarrow> 'a list \<Rightarrow> (string \<rightharpoonup> 'a) \<Rightarrow> ('s, 'r) wrapped" where
  "inner heartbeat_interval heartbeat' runner_method self args kwargs =
     (let timer0 = Heartbeat_init heartbeat_interval heartbeat';
          (body, self2, timer2, evs2) =
            (case preflight heartbeat' timer0 self of
               (Some e, self1, timer1, evs1) \<Rightarrow> (Raise e, self1, timer1, evs1)
             | (None, self1, timer1, evs1) \<Rightarrow>
                 (case runner_method args kwargs self1 of
                    (r, self2) \<Rightarrow> (r, self2, timer1, evs1 @ [Runner_method_called])))
      in case cancel timer2 of
           (Raise e, timer3, evs3) \<Rightarrow>
             \<lparr>returned = Raise e, self_after = self2, timer = timer3,
              calls = evs2 @ [Timer_cancel] @ evs3\<rparr>
         | (Return _, timer3, evs3) \<Rightarrow>
             \<lparr>returned = body, self_after = self2, timer = timer3,
              calls = evs2 @ [Timer_cancel] @ evs3\<rparr>)"

section \<open>timeout_handler\<close>

text \<open>
  The ambient context is a dictionary, one per thread (\<open>prefect.context\<close> is
  thread-local).  A callable reads and may change the context of the thread it runs on.
\<close>

type_synonym 'v "context" = "string \<rightharpoonup> 'v"

type_synonym 'v store = "thread \<Rightarrow> 'v context"

type_synonym ('a, 'v, 'r) callable =
  "'v context \<Rightarrow> 'a list \<Rightarrow> (string \<rightharpoonup> 'a) \<Rightarrow> 'r outcome \<times> 'v context"

text \<open>\<open>fn(*args, **kwargs)\<close> on thread \<open>th\<close>.\<close>

definition call_on ::
  "thread \<Rightarrow> ('a, 'v, 'r) callable \<Rightarrow> 'a list \<Rightarrow> (string \<rightharpoonup> 'a) \<Rightarrow> 'v store
     \<Rightarrow> 'r outcome \<times> 'v store" where
  "call_on th fn args kwargs st =
     (case fn (st th) args kwargs of (r, c) \<Rightarrow> (r, st(th := c)))"

text \<open>
  Modelled from the spec: \<open>prefect.context\<close>, the ambient context object with its
  \<open>to_dict\<close> and its use as a context manager, is not among the sources.  The
  specification: the snapshot is "an opaque, copyable capture of ambient execution
  state", "copied, never shared by reference"; the task "restores the captured
  ContextSnapshot on the worker thread (scoped for the duration of the call, reverted
  afterward on that thread)".
\<close>

definition to_dict :: "'v context \<Rightarrow> 'v context" where
  "to_dict c = c"

definition context_call ::
  "thread \<Rightarrow> 'v context \<Rightarrow> ('v store \<Rightarrow> 'x \<times> 'v store) \<Rightarrow> 'v store \<Rightarrow> 'x \<times> 'v store" where
  "context_call th snapshot body st =
     (let previous = st th
      in case body (st(th := snapshot)) of (x, st') \<Rightarrow> (x, st'(th := previous)))"

text \<open>Lines 101 to 103, run on thread \<open>th\<close>.\<close>

definition run_with_ctx ::
  "thread \<Rightarrow> ('a, 'v, 'r) callable \<Rightarrow> 'a list \<Rightarrow> 'v context \<Rightarrow> (string \<rightharpoonup> 'a) \<Rightarrow> 'v store
     \<Rightarrow> 'r outcome \<times> 'v store" where
  "run_with_ctx th fn args ctx_dict kwargs st =
     context_call th ctx_dict (call_on th fn args kwargs) st"

text \<open>
  How far the dispatched task is when the caller waits for it.  That is the scheduler's
  and the clock's to decide, so it is an argument of the model: the task is done before
  the caller's wait begins, or it gets done during the wait, within the timeout, or it
  is not done when the timeout has run out.
\<close>

datatype progress = Done_before_wait | Done_within_timeout | Not_done_in_time

text \<open>
  \<open>Future.result(timeout)\<close> of the standard library.  A future that is done gives the
  task's own outcome at once, whatever the timeout.  Otherwise the caller blocks on a
  condition variable for at most \<open>timeout\<close> seconds; a timeout above
  \<open>threading.TIMEOUT_MAX\<close> is refused there with \<open>OverflowError\<close>.  After the wait:
  the task's own outcome if it is done, \<open>concurrent.futures.TimeoutError\<close> if not.
\<close>

definition Future_result :: "python \<Rightarrow> progress \<Rightarrow> int \<Rightarrow> 'r outcome \<Rightarrow> 'r outcome" where
  "Future_result py prog timeout task_outcome =
     (case prog of
        Done_before_wait \<Rightarrow> task_outcome
      | Done_within_timeout \<Rightarrow>
          (if TIMEOUT_MAX py < timeout
           then Raise (Exn OverflowError ''timeout value is too large'')
           else task_outcome)
      | Not_done_in_time \<Rightarrow>
          (if TIMEOUT_MAX py < timeout
           then Raise (Exn OverflowError ''timeout value is too large'')
           else Raise (Exn FutureTimeout [])))"

text \<open>
  What a call of \<open>timeout_handler\<close> gives: \<open>result\<close>, what the caller gets;
  \<open>contexts\<close>, each thread's context once the work the call started has ended; \<open>task\<close>,
  the outcome of the dispatched task when it ends (\<open>None\<close>: nothing was dispatched);
  \<open>effects\<close>, the library calls made on the caller's thread, in order.
\<close>

record ('v, 'r) handled =
  result :: "'r outcome"
  contexts :: "'v store"
  task :: "'r outcome option"
  effects :: "event list"

text \<open>
  \<open>timeout_handler(fn, *args, timeout, **kwargs)\<close>.  Besides the source's parameters:
  the interpreter \<open>py\<close>, the task's progress \<open>prog\<close> (see \<open>Future_result\<close>),
  \<open>caller_change\<close>, what the caller's thread does to its own context between the
  dispatch and the start of the task, and the contexts \<open>st\<close> at the call.  The call on line 105 binds \<open>_ctx_dict\<close> by keyword next to
  \<open>**kwargs\<close>: a key \<open>_ctx_dict\<close> in \<open>kwargs\<close> is a duplicate keyword argument, a
  \<open>TypeError\<close> raised where the call is made, after its arguments were evaluated.
  \<open>fut.result\<close> re-raises what the task raised, inside the \<open>try\<close> of line 109, and
  \<open>except FutureTimeout\<close> catches what was raised there if it is an instance of that
  class, wherever it came from.
\<close>

definition timeout_handler ::
  "python \<Rightarrow> ('a, 'v, 'r) callable \<Rightarrow> 'a list \<Rightarrow> int option \<Rightarrow> (string \<rightharpoonup> 'a)
     \<Rightarrow> progress \<Rightarrow> ('v context \<Rightarrow> 'v context) \<Rightarrow> 'v store \<Rightarrow> ('v, 'r) handled" where
  "timeout_handler py fn args timeout kwargs prog caller_change st =
     (case timeout of
        None \<Rightarrow>
          (case call_on Caller_thread fn args kwargs st of
             (r, st') \<Rightarrow> \<lparr>result = r, contexts = st', task = None, effects = []\<rparr>)
      | Some t \<Rightarrow>
          (let ctx_dict = to_dict (st Caller_thread)
           in if kwargs ''_ctx_dict'' \<noteq> None
              then \<lparr>result = Raise (Exn TypeError
                                ''submit() got multiple values for keyword argument _ctx_dict''),
                    contexts = st, task = None,
                    effects = [Executor_new None, Context_to_dict]\<rparr>
              else
                (let st1 = st(Caller_thread := caller_change (st Caller_thread))
                 in case run_with_ctx Worker_thread fn args ctx_dict kwargs st1 of
                      (task_outcome, st2) \<Rightarrow>
                        \<lparr>result =
                           (case Future_result py prog t task_outcome of
                              Return v \<Rightarrow> Return v
                            | Raise e \<Rightarrow>
                                (if isinstance_FutureTimeout py (class_of e)
                                 then Raise (Exn TimeoutError ''Execution timed out.'')
                                 else Raise e)),
                         contexts = st2, task = Some task_outcome,
                         effects = [Executor_new None, Context_to_dict,
                                    Executor_submit ''run_with_ctx'', Future_result_called t]\<rparr>)))"

text \<open>The direct call \<open>fn(*args, **kwargs)\<close> on the caller's thread.\<close>

definition direct_call ::
  "('a, 'v, 'r) callable \<Rightarrow> 'a list \<Rightarrow> (string \<rightharpoonup> 'a) \<Rightarrow> 'v store \<Rightarrow> 'r outcome \<times> 'v store" where
  "direct_call fn args kwargs st = call_on Caller_thread fn args kwargs st"

section \<open>Concrete inputs\<close>

text \<open>Probes and a runner method on a world that counts the calls made on it.\<close>

definition probe_true :: "nat \<Rightarrow> bool outcome \<times> nat" where
  "probe_true w = (Return True, Suc w)"

definition probe_false :: "nat \<Rightarrow> bool outcome \<times> nat" where
  "probe_false w = (Return False, Suc w)"

definition probe_unreachable :: "nat \<Rightarrow> bool outcome \<times> nat" where
  "probe_unreachable w = (Raise (Exn (OtherException ''ConnectionError'') ''no route''), Suc w)"

definition probe_interrupted :: "nat \<Rightarrow> bool outcome \<times> nat" where
  "probe_interrupted w = (Raise (Exn KeyboardInterrupt []), Suc w)"

definition method_length :: "nat list \<Rightarrow> (string \<rightharpoonup> nat) \<Rightarrow> nat \<Rightarrow> nat outcome \<times> nat" where
  "method_length args kwargs w = (Return (length args), Suc w)"

definition no_kwargs :: "string \<rightharpoonup> nat" where
  "no_kwargs = Map.empty"

definition kwargs_reserved :: "string \<rightharpoonup> nat" where
  "kwargs_reserved = [''_ctx_dict'' \<mapsto> 5]"

text \<open>
  Callables for \<open>timeout_handler\<close>: one that reads a key of its context and then
  overwrites it, one that adds its arguments up, one that raises
  \<open>concurrent.futures.TimeoutError\<close> itself, as a callable does that waits on a
  future of its own, one that raises the builtin \<open>TimeoutError\<close>, and one that raises
  an instance of a subclass of \<open>concurrent.futures.TimeoutError\<close>.
\<close>

definition fn_read :: "(nat, nat, nat option) callable" where
  "fn_read ctx args kwargs = (Return (ctx ''flow_name''), ctx(''flow_name'' \<mapsto> 99))"

definition fn_sum :: "(nat, nat, nat) callable" where
  "fn_sum ctx args kwargs = (Return (sum_list args), ctx)"

definition fn_future_timeout :: "(nat, nat, nat) callable" where
  "fn_future_timeout ctx args kwargs = (Raise (Exn FutureTimeout ''inner wait''), ctx)"

definition fn_slow_socket :: "(nat, nat, nat) callable" where
  "fn_slow_socket ctx args kwargs = (Raise (Exn TimeoutError ''slow socket''), ctx)"

definition fn_wait_timeout :: "(nat, nat, nat) callable" where
  "fn_wait_timeout ctx args kwargs =
     (Raise (Exn (Subclass ''MyWaitTimeout'' [FutureTimeout]) ''gave up''), ctx)"

text \<open>Two interpreters, on a 64-bit Linux.\<close>

definition python37 :: python where
  "python37 = \<lparr>futures_timeout_is_builtin = False, TIMEOUT_MAX = 9223372036\<rparr>"

definition python311 :: python where
  "python311 = \<lparr>futures_timeout_is_builtin = True, TIMEOUT_MAX = 9223372036\<rparr>"

definition store0 :: "nat store" where
  "store0 th = (case th of Caller_thread \<Rightarrow> [''flow_name'' \<mapsto> 1] | Worker_thread \<Rightarrow> Map.empty)"

definition keep_context :: "nat context \<Rightarrow> nat context" where
  "keep_context c = c"

definition clear_context :: "nat context \<Rightarrow> nat context" where
  "clear_context c = Map.empty"

section \<open>Heartbeat: cancel\<close>

lemma cancel_returns: "fst (cancel hb) = Return ()"
  by (simp add: cancel_def Let_def split: option.split)

lemma cancel_never_started:
  "executor hb = None \<Longrightarrow> cancel hb = (Return (), hb\<lparr>exit_flag := True\<rparr>, [])"
  by (simp add: cancel_def)

lemma cancel_started:
  "executor hb = Some ex \<Longrightarrow>
     cancel hb =
       (Return (), hb\<lparr>exit_flag := True, executor := Some (shutdown ex)\<rparr>, [Executor_shutdown])"
  by (simp add: cancel_def)

lemma cancel_repeatedly_returns: "fst (cancel_repeatedly n hb) = Return ()"
proof (induction n arbitrary: hb)
  case 0
  show ?case by simp
next
  case (Suc n)
  obtain r hb' evs where c: "cancel hb = (r, hb', evs)"
    by (cases "cancel hb") auto
  with cancel_returns [of hb] have r: "r = Return ()" by simp
  obtain r2 hb2 evs2 where c2: "cancel_repeatedly n hb' = (r2, hb2, evs2)"
    by (cases "cancel_repeatedly n hb'") auto
  with Suc.IH [of hb'] have "r2 = Return ()" by simp
  with c r c2 show ?case by simp
qed

lemma cancel_repeatedly_never_started:
  "executor hb = None \<Longrightarrow> snd (snd (cancel_repeatedly n hb)) = []"
proof (induction n arbitrary: hb)
  case 0
  show ?case by simp
next
  case (Suc n)
  let ?hb' = "hb\<lparr>exit_flag := True\<rparr>"
  have c: "cancel hb = (Return (), ?hb', [])"
    using Suc.prems by (rule cancel_never_started)
  have "executor ?hb' = None" using Suc.prems by simp
  then have "snd (snd (cancel_repeatedly n ?hb')) = []" by (rule Suc.IH)
  with c show ?case by (simp split: prod.split)
qed

text \<open>
  C8.  \<open>cancel()\<close> never raises, however often it is called in a row, on an object that
  was never started and on one that was started; on an object that was never started a
  call sets the exit flag and does nothing else: it makes no call that could block (no
  \<open>shutdown\<close>), and neither does any number of calls in a row.
\<close>

theorem Heartbeat_cancel_safe:
  "fst (cancel_repeatedly n hb) = Return () \<and>
   fst (cancel_repeatedly n (fst (start hb))) = Return () \<and>
   (executor hb = None \<longrightarrow>
      cancel hb = (Return (), hb\<lparr>exit_flag := True\<rparr>, []) \<and>
      snd (snd (cancel_repeatedly n hb)) = [])"
  by (simp add: cancel_repeatedly_returns cancel_never_started cancel_repeatedly_never_started)

theorem Heartbeat_cancel_safe_witness:
  "executor (Heartbeat_init 30 probe_true) = None \<and>
   fst (cancel_repeatedly 3 (Heartbeat_init 30 probe_true)) = Return () \<and>
   fst (cancel_repeatedly 3 (fst (start (Heartbeat_init 30 probe_true)))) = Return () \<and>
   snd (snd (cancel (Heartbeat_init 30 probe_true))) = [] \<and>
   snd (snd (cancel_repeatedly 3 (Heartbeat_init 30 probe_true))) = []"
  using Heartbeat_cancel_safe [of 3 "Heartbeat_init 30 probe_true"]
  by (simp add: Heartbeat_init_def)

section \<open>Heartbeat: the loop\<close>





text \<open>
  With a callback that does not raise, the loop of a Heartbeat with a positive interval
  calls the callback on every tick and sleeps one second after each call: \<open>n\<close> ticks
  before the flag is seen are \<open>n\<close> calls, and the counter ends at \<open>n mod interval\<close>.
\<close>

lemma looper_ticks:
  assumes "0 < interval hb" and "rate hb = min (interval hb) 1"
    and "\<forall>w. \<exists>b w'. function' hb w = (Return b, w')"
    and "0 \<le> i" and "i < interval hb"
  shows "\<exists>w'. looper n hb (i, w, evs)
           = (Return (), (i + int n) mod interval hb, w',
              evs @ concat (replicate n [Function_called, Sleep 1]))"
  using assms(4,5)
proof (induction n arbitrary: i w evs)
  case 0
  then show ?case by simp
next
  case (Suc n)
  from assms have r: "rate hb = 1" by simp
  from assms have ne: "interval hb \<noteq> 0" by simp
  from assms(3) obtain b w1 where f: "function' hb w = (Return b, w1)" by blast
  let ?i' = "(i + 1) mod interval hb"
  have b: "0 \<le> ?i'" "?i' < interval hb" using assms(1) by simp_all
  from Suc.IH [OF b, of w1 "evs @ [Function_called, Sleep 1]"]
  obtain w' where IH: "looper n hb (?i', w1, evs @ [Function_called, Sleep 1]) =
     (Return (), (?i' + int n) mod interval hb, w',
      (evs @ [Function_called, Sleep 1]) @ concat (replicate n [Function_called, Sleep 1]))"
    by blast
  have "(?i' + int n) mod interval hb = (i + int (Suc n)) mod interval hb"
  proof -
    have "(?i' + int n) mod interval hb = ((i + 1) + int n) mod interval hb"
      by (rule mod_add_left_eq)
    also have "(i + 1) + int n = i + int (Suc n)" by simp
    finally show ?thesis .
  qed
  with IH f r ne show ?case
    by (simp add: py_mod_def py_round_def sleep_def)
qed




section \<open>run_with_heartbeat: the four ways through the pre-flight\<close>

lemma preflight_true:
  "probe s = (Return True, s1) \<Longrightarrow>
   preflight probe hb s =
     (None, s1, fst (start hb),
      [Probe_called, Timer_start, Executor_new (Some 2), Executor_submit ''looper''])"
  by (simp add: preflight_def start_def Let_def)

lemma preflight_false:
  "probe s = (Return False, s1) \<Longrightarrow> preflight probe hb s = (None, s1, hb, [Probe_called])"
  by (simp add: preflight_def)

lemma preflight_caught:
  "probe s = (Raise e, s1) \<Longrightarrow> is_Exception (class_of e) \<Longrightarrow>
   preflight probe hb s = (None, s1, hb, [Probe_called, Logger_exception zombie_message])"
  by (simp add: preflight_def)

lemma preflight_uncaught:
  "probe s = (Raise e, s1) \<Longrightarrow> \<not> is_Exception (class_of e) \<Longrightarrow>
   preflight probe hb s = (Some e, s1, hb, [Probe_called])"
  by (simp add: preflight_def)

lemma inner_started:
  assumes "probe s = (Return True, s1)"
  shows "inner i probe method s args kwargs =
     \<lparr>returned = fst (method args kwargs s1), self_after = snd (method args kwargs s1),
      timer = (fst (start (Heartbeat_init i probe)))
        \<lparr>exit_flag := True,
         executor := Some (shutdown (submit (ThreadPoolExecutor (Some 2)) ''looper''))\<rparr>,
      calls = [Probe_called, Timer_start, Executor_new (Some 2), Executor_submit ''looper'',
               Runner_method_called, Timer_cancel, Executor_shutdown]\<rparr>"
  using assms
  by (simp add: inner_def preflight_true Let_def start_def cancel_def split: prod.split)

lemma inner_not_started:
  assumes "probe s = (Return False, s1)"
  shows "inner i probe method s args kwargs =
     \<lparr>returned = fst (method args kwargs s1), self_after = snd (method args kwargs s1),
      timer = (Heartbeat_init i probe)\<lparr>exit_flag := True\<rparr>,
      calls = [Probe_called, Runner_method_called, Timer_cancel]\<rparr>"
  using assms
  by (simp add: inner_def preflight_false Let_def cancel_def Heartbeat_init_def split: prod.split)

lemma inner_caught:
  assumes "probe s = (Raise e, s1)" and "is_Exception (class_of e)"
  shows "inner i probe method s args kwargs =
     \<lparr>returned = fst (method args kwargs s1), self_after = snd (method args kwargs s1),
      timer = (Heartbeat_init i probe)\<lparr>exit_flag := True\<rparr>,
      calls = [Probe_called, Logger_exception zombie_message, Runner_method_called,
               Timer_cancel]\<rparr>"
  using assms
  by (simp add: inner_def preflight_caught Let_def cancel_def Heartbeat_init_def split: prod.split)

lemma inner_uncaught:
  assumes "probe s = (Raise e, s1)" and "\<not> is_Exception (class_of e)"
  shows "inner i probe method s args kwargs =
     \<lparr>returned = Raise e, self_after = s1,
      timer = (Heartbeat_init i probe)\<lparr>exit_flag := True\<rparr>,
      calls = [Probe_called, Timer_cancel]\<rparr>"
  using assms
  by (simp add: inner_def preflight_uncaught Let_def cancel_def Heartbeat_init_def split: prod.split)

lemma probe_cases:
  obtains s1 where "probe s = (Return True, s1)"
  | s1 where "probe s = (Return False, s1)"
  | e s1 where "probe s = (Raise e, s1)" "is_Exception (class_of e)"
  | e s1 where "probe s = (Raise e, s1)" "\<not> is_Exception (class_of e)"
proof (cases "probe s")
  case (Pair r s1)
  show ?thesis
  proof (cases r)
    case (Return b)
    with Pair that(1,2) show ?thesis by (cases b) auto
  next
    case (Raise e)
    with Pair that(3,4) show ?thesis by (cases "is_Exception (class_of e)") auto
  qed
qed

text \<open>
  C1.  Whatever the probe does and whatever the wrapped method does (return or raise),
  \<open>inner\<close> calls \<open>timer.cancel()\<close> exactly once, on the Heartbeat it constructed, and
  as the last thing it does: after the call nothing follows but the executor shutdown
  that is part of \<open>cancel\<close> itself.  If \<open>timer.start()\<close> was not called, the cancel
  shuts nothing down: it is the last call, and it leaves the Heartbeat as constructed
  but for the exit flag.
\<close>

theorem inner_cancels_exactly_once:
  "count_list (calls (inner i probe method s args kwargs)) Timer_cancel = 1 \<and>
   exit_flag (timer (inner i probe method s args kwargs)) \<and>
   (\<exists>pre post. calls (inner i probe method s args kwargs) = pre @ Timer_cancel # post \<and>
                set post \<subseteq> {Executor_shutdown}) \<and>
   (Timer_start \<notin> set (calls (inner i probe method s args kwargs)) \<longrightarrow>
      last (calls (inner i probe method s args kwargs)) = Timer_cancel \<and>
      Executor_shutdown \<notin> set (calls (inner i probe method s args kwargs)) \<and>
      timer (inner i probe method s args kwargs) = (Heartbeat_init i probe)\<lparr>exit_flag := True\<rparr>)"
proof (cases rule: probe_cases [of probe s])
  case (1 s1)
  have "\<exists>pre post.
          [Probe_called, Timer_start, Executor_new (Some 2), Executor_submit ''looper'',
           Runner_method_called, Timer_cancel, Executor_shutdown] = pre @ Timer_cancel # post \<and>
          set post \<subseteq> {Executor_shutdown}"
    by (rule exI [of _ "[Probe_called, Timer_start, Executor_new (Some 2),
                         Executor_submit ''looper'', Runner_method_called]"],
        rule exI [of _ "[Executor_shutdown]"]) simp
  then show ?thesis by (simp add: inner_started [where probe = probe and s = s, OF 1])
next
  case (2 s1)
  have "\<exists>pre post. [Probe_called, Runner_method_called, Timer_cancel] = pre @ Timer_cancel # post \<and>
          set post \<subseteq> {Executor_shutdown}"
    by (rule exI [of _ "[Probe_called, Runner_method_called]"], rule exI [of _ "[]"]) simp
  then show ?thesis by (simp add: inner_not_started [where probe = probe and s = s, OF 2])
next
  case (3 e s1)
  have "\<exists>pre post.
          [Probe_called, Logger_exception zombie_message, Runner_method_called, Timer_cancel]
            = pre @ Timer_cancel # post \<and> set post \<subseteq> {Executor_shutdown}"
    by (rule exI [of _ "[Probe_called, Logger_exception zombie_message, Runner_method_called]"],
        rule exI [of _ "[]"]) simp
  then show ?thesis by (simp add: inner_caught [where probe = probe and s = s, OF 3])
next
  case (4 e s1)
  have "\<exists>pre post. [Probe_called, Timer_cancel] = pre @ Timer_cancel # post \<and>
          set post \<subseteq> {Executor_shutdown}"
    by (rule exI [of _ "[Probe_called]"], rule exI [of _ "[]"]) simp
  then show ?thesis by (simp add: inner_uncaught [where probe = probe and s = s, OF 4])
qed

theorem inner_cancels_exactly_once_witness:
  "Timer_start \<notin> set (calls (inner 30 probe_false method_length 0 [7, 8] no_kwargs)) \<and>
   count_list (calls (inner 30 probe_false method_length 0 [7, 8] no_kwargs)) Timer_cancel = 1 \<and>
   last (calls (inner 30 probe_false method_length 0 [7, 8] no_kwargs)) = Timer_cancel \<and>
   Executor_shutdown \<notin> set (calls (inner 30 probe_false method_length 0 [7, 8] no_kwargs)) \<and>
   count_list (calls (inner 30 probe_true method_length 0 [7, 8] no_kwargs)) Timer_cancel = 1"
proof -
  have f: "probe_false 0 = (Return False, Suc 0)" by (simp add: probe_false_def)
  have h: "Timer_start \<notin> set (calls (inner 30 probe_false method_length 0 [7, 8] no_kwargs))"
    by (simp add: inner_not_started [where probe = probe_false and s = 0, OF f])
  from h inner_cancels_exactly_once [of 30 probe_false method_length 0 "[7, 8]" no_kwargs]
    inner_cancels_exactly_once [of 30 probe_true method_length 0 "[7, 8]" no_kwargs]
  show ?thesis by simp
qed

text \<open>
  C5, as amended.  If the probe raises an exception of a class derived from
  \<open>Exception\<close>, \<open>inner\<close> records the failure with \<open>logger.exception\<close>, does not call
  \<open>timer.start()\<close>, and calls the wrapped method on the world the probe left, with the
  original arguments; what the method returns or raises is what \<open>inner\<close> returns or
  raises.  The only other calls are the probe itself and the closing \<open>timer.cancel()\<close>.
\<close>

theorem inner_probe_raises_Exception:
  assumes "probe s = (Raise e, s1)" and "is_Exception (class_of e)"
  shows "returned (inner i probe method s args kwargs) = fst (method args kwargs s1) \<and>
         self_after (inner i probe method s args kwargs) = snd (method args kwargs s1) \<and>
         calls (inner i probe method s args kwargs) =
           [Probe_called, Logger_exception zombie_message, Runner_method_called, Timer_cancel] \<and>
         executor (timer (inner i probe method s args kwargs)) = None"
  by (simp add: inner_caught [where probe = probe and s = s, OF assms] Heartbeat_init_def)

theorem inner_probe_raises_Exception_witness:
  "probe_unreachable 0 = (Raise (Exn (OtherException ''ConnectionError'') ''no route''), 1) \<and>
   is_Exception (class_of (Exn (OtherException ''ConnectionError'') ''no route'')) \<and>
   returned (inner 30 probe_unreachable method_length 0 [7, 8] no_kwargs) = Return 2 \<and>
   self_after (inner 30 probe_unreachable method_length 0 [7, 8] no_kwargs) = 2 \<and>
   calls (inner 30 probe_unreachable method_length 0 [7, 8] no_kwargs) =
     [Probe_called, Logger_exception zombie_message, Runner_method_called, Timer_cancel]"
proof -
  have p: "probe_unreachable 0 = (Raise (Exn (OtherException ''ConnectionError'') ''no route''), 1)"
    by (simp add: probe_unreachable_def)
  have c: "is_Exception (class_of (Exn (OtherException ''ConnectionError'') ''no route''))"
    by simp
  from inner_probe_raises_Exception
         [where probe = probe_unreachable and s = 0, OF p c,
          of 30 method_length "[7, 8]" no_kwargs] p c
  show ?thesis by (simp add: method_length_def)
qed

text \<open>
  C5, as stated, fails on a probe that raises \<open>KeyboardInterrupt\<close>: \<open>except Exception\<close>
  does not catch it, so nothing is logged, the wrapped method is not called, and
  \<open>inner\<close> raises the probe's exception after \<open>timer.cancel()\<close>.
\<close>

theorem inner_probe_interrupted_counterexample:
  "returned (inner 30 probe_interrupted method_length 0 [7, 8] no_kwargs)
     = Raise (Exn KeyboardInterrupt []) \<and>
   calls (inner 30 probe_interrupted method_length 0 [7, 8] no_kwargs)
     = [Probe_called, Timer_cancel] \<and>
   Runner_method_called \<notin> set (calls (inner 30 probe_interrupted method_length 0 [7, 8] no_kwargs)) \<and>
   self_after (inner 30 probe_interrupted method_length 0 [7, 8] no_kwargs) = 1"
proof -
  have p: "probe_interrupted 0 = (Raise (Exn KeyboardInterrupt []), 1)"
    by (simp add: probe_interrupted_def)
  have c: "\<not> is_Exception (class_of (Exn KeyboardInterrupt []))" by simp
  show ?thesis
    by (simp add: inner_uncaught [where probe = probe_interrupted and s = 0, OF p c])
qed

text \<open>
  C10.  If the probe returns \<open>False\<close>, \<open>inner\<close> constructs the Heartbeat and never
  starts it: its calls are the probe, the wrapped method and \<open>timer.cancel()\<close>, the
  Heartbeat has no executor and no looper when \<open>inner\<close> leaves, and the probe has been
  called once only.  The wrapped method runs on the world the probe left and its
  outcome is the outcome of \<open>inner\<close>.  The cancel in the \<open>finally\<close> block returns, makes
  no call, and changes nothing of the Heartbeat but the exit flag.
\<close>

theorem inner_probe_returns_False:
  assumes "probe s = (Return False, s1)"
  shows "returned (inner i probe method s args kwargs) = fst (method args kwargs s1) \<and>
         self_after (inner i probe method s args kwargs) = snd (method args kwargs s1) \<and>
         calls (inner i probe method s args kwargs) =
           [Probe_called, Runner_method_called, Timer_cancel] \<and>
         executor (timer (inner i probe method s args kwargs)) = None \<and>
         fut (timer (inner i probe method s args kwargs)) = None \<and>
         cancel (Heartbeat_init i probe) =
           (Return (), (Heartbeat_init i probe)\<lparr>exit_flag := True\<rparr>, []) \<and>
         timer (inner i probe method s args kwargs) = (Heartbeat_init i probe)\<lparr>exit_flag := True\<rparr>"
  by (simp add: inner_not_started [where probe = probe and s = s, OF assms]
        Heartbeat_init_def cancel_def)

theorem inner_probe_returns_False_witness:
  "probe_false 0 = (Return False, 1) \<and>
   returned (inner 30 probe_false method_length 0 [7, 8] no_kwargs) = Return 2 \<and>
   self_after (inner 30 probe_false method_length 0 [7, 8] no_kwargs) = 2 \<and>
   calls (inner 30 probe_false method_length 0 [7, 8] no_kwargs) =
     [Probe_called, Runner_method_called, Timer_cancel] \<and>
   executor (timer (inner 30 probe_false method_length 0 [7, 8] no_kwargs)) = None"
proof -
  have p: "probe_false 0 = (Return False, 1)" by (simp add: probe_false_def)
  from inner_probe_returns_False
         [where probe = probe_false and s = 0, OF p, of 30 method_length "[7, 8]" no_kwargs] p
  show ?thesis by (simp add: method_length_def Heartbeat_init_def)
qed

section \<open>timeout_handler\<close>

lemma run_with_ctx_eq:
  "run_with_ctx th fn args snapshot kwargs st = (fst (fn snapshot args kwargs), st)"
  by (simp add: run_with_ctx_def context_call_def call_on_def Let_def split: prod.split)

lemma timeout_handler_dispatched:
  assumes "kwargs ''_ctx_dict'' = None"
  shows "timeout_handler py fn args (Some t) kwargs prog caller_change st =
     \<lparr>result =
        (case Future_result py prog t (fst (fn (to_dict (st Caller_thread)) args kwargs)) of
           Return v \<Rightarrow> Return v
         | Raise e \<Rightarrow>
             (if isinstance_FutureTimeout py (class_of e)
              then Raise (Exn TimeoutError ''Execution timed out.'')
              else Raise e)),
      contexts = st(Caller_thread := caller_change (st Caller_thread)),
      task = Some (fst (fn (to_dict (st Caller_thread)) args kwargs)),
      effects = [Executor_new None, Context_to_dict,
                 Executor_submit ''run_with_ctx'', Future_result_called t]\<rparr>"
  using assms by (simp add: timeout_handler_def Let_def run_with_ctx_eq)

text \<open>
  When the dispatched task is not done when the timeout has run out, the call raises
  \<open>TimeoutError\<close> with the message \<open>Execution timed out.\<close>, whatever the task goes on
  to do.
\<close>

lemma timeout_handler_deadline_elapsed:
  assumes "kwargs ''_ctx_dict'' = None" and "t \<le> TIMEOUT_MAX py"
  shows "result (timeout_handler py fn args (Some t) kwargs Not_done_in_time caller_change st)
           = Raise (Exn TimeoutError ''Execution timed out.'')"
  using assms(2)
  by (simp add: timeout_handler_dispatched [where kwargs = kwargs, OF assms(1)] Future_result_def)

text \<open>
  The same replacement meets every exception of the task that \<open>except FutureTimeout\<close>
  catches: an instance of a subclass, and, on an interpreter where the two classes are
  one, the builtin \<open>TimeoutError\<close> of a task that was done in time.
\<close>

lemma timeout_handler_replaces_instances:
  "result (timeout_handler python37 fn_wait_timeout [] (Some 10) no_kwargs Done_within_timeout
             keep_context store0)
     = Raise (Exn TimeoutError ''Execution timed out.'') \<and>
   result (timeout_handler python311 fn_slow_socket [] (Some 10) no_kwargs Done_within_timeout
             keep_context store0)
     = Raise (Exn TimeoutError ''Execution timed out.'')"
proof -
  have k: "no_kwargs ''_ctx_dict'' = None" by (simp add: no_kwargs_def)
  show ?thesis
    by (simp add: timeout_handler_dispatched [where kwargs = no_kwargs, OF k]
          Future_result_def fn_wait_timeout_def fn_slow_socket_def python37_def python311_def)
qed

text \<open>
  C2.  The code at the failing input: a callable that raises
  \<open>concurrent.futures.TimeoutError\<close> itself, run with \<open>timeout = 10\<close> and done within
  the deadline, on either interpreter.  The task has completed, by raising;
  \<open>timeout_handler\<close> nevertheless raises \<open>TimeoutError\<close> with the message
  \<open>Execution timed out.\<close>, and the task's own exception and its message are lost.
\<close>

theorem timeout_handler_raises_timeout_in_time:
  "task (timeout_handler python37 fn_future_timeout [1, 2] (Some 10) no_kwargs
           Done_within_timeout keep_context store0)
     = Some (Raise (Exn FutureTimeout ''inner wait'')) \<and>
   result (timeout_handler python37 fn_future_timeout [1, 2] (Some 10) no_kwargs
             Done_within_timeout keep_context store0)
     = Raise (Exn TimeoutError ''Execution timed out.'') \<and>
   task (timeout_handler python311 fn_future_timeout [1, 2] (Some 10) no_kwargs
           Done_within_timeout keep_context store0)
     = Some (Raise (Exn FutureTimeout ''inner wait'')) \<and>
   result (timeout_handler python311 fn_future_timeout [1, 2] (Some 10) no_kwargs
             Done_within_timeout keep_context store0)
     = Raise (Exn TimeoutError ''Execution timed out.'')"
proof -
  have k: "no_kwargs ''_ctx_dict'' = None" by (simp add: no_kwargs_def)
  show ?thesis
    by (simp add: timeout_handler_dispatched [where kwargs = no_kwargs, OF k]
          Future_result_def fn_future_timeout_def python37_def python311_def)
qed

text \<open>
  C3.  With \<open>timeout = None\<close>, \<open>timeout_handler\<close> gives what \<open>fn\<close> itself gives when it
  is called with the same arguments in the caller's context: the value \<open>fn\<close> returns
  or the exception \<open>fn\<close> raises is the result, and the caller's context is as \<open>fn\<close>
  leaves it.  That is the direct call on the caller's thread.  Nothing is dispatched,
  and no call is made on an executor or a future.
\<close>

theorem timeout_handler_None_is_direct_call:
  "result (timeout_handler py fn args None kwargs prog caller_change st)
     = fst (fn (st Caller_thread) args kwargs) \<and>
   contexts (timeout_handler py fn args None kwargs prog caller_change st)
     = st(Caller_thread := snd (fn (st Caller_thread) args kwargs)) \<and>
   result (timeout_handler py fn args None kwargs prog caller_change st)
     = fst (direct_call fn args kwargs st) \<and>
   contexts (timeout_handler py fn args None kwargs prog caller_change st)
     = snd (direct_call fn args kwargs st) \<and>
   task (timeout_handler py fn args None kwargs prog caller_change st) = None \<and>
   effects (timeout_handler py fn args None kwargs prog caller_change st) = []"
  by (simp add: timeout_handler_def direct_call_def call_on_def split: prod.split)

theorem timeout_handler_None_is_direct_call_witness:
  "result (timeout_handler python37 fn_sum [1, 2] None no_kwargs Not_done_in_time
             clear_context store0) = Return 3 \<and>
   result (timeout_handler python37 fn_future_timeout [1, 2] None no_kwargs Not_done_in_time
             clear_context store0) = Raise (Exn FutureTimeout ''inner wait'') \<and>
   result (timeout_handler python37 fn_read [] None no_kwargs Not_done_in_time
             clear_context store0) = Return (Some 1) \<and>
   contexts (timeout_handler python37 fn_read [] None no_kwargs Not_done_in_time
               clear_context store0) Caller_thread ''flow_name'' = Some 99 \<and>
   effects (timeout_handler python37 fn_sum [1, 2] None no_kwargs Not_done_in_time
              clear_context store0) = []"
  using timeout_handler_None_is_direct_call
          [of python37 fn_sum "[1, 2]" no_kwargs Not_done_in_time clear_context store0]
        timeout_handler_None_is_direct_call
          [of python37 fn_future_timeout "[1, 2]" no_kwargs Not_done_in_time clear_context store0]
        timeout_handler_None_is_direct_call
          [of python37 fn_read "[]" no_kwargs Not_done_in_time clear_context store0]
  by (simp add: fn_sum_def fn_future_timeout_def fn_read_def store0_def)

text \<open>
  C6, as amended.  With a timeout and a task dispatched, the calls \<open>timeout_handler\<close>
  makes are the construction of the executor, the capture of the context, the
  submission and the wait on the future, whatever the task does and however far it
  gets: no call releases the executor.  When the task completes within the deadline
  (it is done before the caller's wait begins, or it gets done during a wait whose
  timeout is not above \<open>threading.TIMEOUT_MAX\<close>), what the task returned is returned
  unchanged, and what it raised is raised unchanged if it is not an instance of
  \<open>concurrent.futures.TimeoutError\<close>.
\<close>

theorem timeout_handler_in_time:
  assumes "kwargs ''_ctx_dict'' = None"
  shows "effects (timeout_handler py fn args (Some t) kwargs prog caller_change st)
           = [Executor_new None, Context_to_dict,
              Executor_submit ''run_with_ctx'', Future_result_called t] \<and>
         Executor_shutdown
           \<notin> set (effects (timeout_handler py fn args (Some t) kwargs prog caller_change st)) \<and>
         (prog = Done_before_wait \<or> prog = Done_within_timeout \<and> t \<le> TIMEOUT_MAX py \<longrightarrow>
            (\<forall>v. task (timeout_handler py fn args (Some t) kwargs prog caller_change st)
                    = Some (Return v) \<longrightarrow>
                  result (timeout_handler py fn args (Some t) kwargs prog caller_change st)
                    = Return v) \<and>
            (\<forall>e. task (timeout_handler py fn args (Some t) kwargs prog caller_change st)
                    = Some (Raise e) \<longrightarrow>
                  \<not> isinstance_FutureTimeout py (class_of e) \<longrightarrow>
                  result (timeout_handler py fn args (Some t) kwargs prog caller_change st)
                    = Raise e))"
proof -
  have d: "Future_result py prog t x = x"
    if "prog = Done_before_wait \<or> prog = Done_within_timeout \<and> t \<le> TIMEOUT_MAX py"
    for x :: "'c outcome"
    using that by (auto simp add: Future_result_def)
  show ?thesis
  proof (cases "prog = Done_before_wait \<or> prog = Done_within_timeout \<and> t \<le> TIMEOUT_MAX py")
    case True
    from True show ?thesis
      by (simp add: timeout_handler_dispatched [where kwargs = kwargs, OF assms] d [OF True])
  next
    case False
    then show ?thesis
      by (auto simp add: timeout_handler_dispatched [where kwargs = kwargs, OF assms])
  qed
qed

theorem timeout_handler_in_time_witness:
  "no_kwargs ''_ctx_dict'' = None \<and> 10 \<le> TIMEOUT_MAX python37 \<and>
   task (timeout_handler python37 fn_sum [1, 2] (Some 10) no_kwargs Done_within_timeout
           keep_context store0) = Some (Return 3) \<and>
   result (timeout_handler python37 fn_sum [1, 2] (Some 10) no_kwargs Done_within_timeout
             keep_context store0) = Return 3 \<and>
   task (timeout_handler python37 fn_slow_socket [] (Some 10) no_kwargs Done_within_timeout
           keep_context store0) = Some (Raise (Exn TimeoutError ''slow socket'')) \<and>
   \<not> isinstance_FutureTimeout python37 (class_of (Exn TimeoutError ''slow socket'')) \<and>
   result (timeout_handler python37 fn_slow_socket [] (Some 10) no_kwargs Done_within_timeout
             keep_context store0) = Raise (Exn TimeoutError ''slow socket'') \<and>
   effects (timeout_handler python37 fn_sum [1, 2] (Some 10) no_kwargs Done_within_timeout
              keep_context store0)
     = [Executor_new None, Context_to_dict,
        Executor_submit ''run_with_ctx'', Future_result_called 10]"
proof -
  have k: "no_kwargs ''_ctx_dict'' = None" by (simp add: no_kwargs_def)
  have m: "10 \<le> TIMEOUT_MAX python37" by (simp add: python37_def)
  have t1: "task (timeout_handler python37 fn_sum [1, 2] (Some 10) no_kwargs Done_within_timeout
                    keep_context store0) = Some (Return 3)"
    by (simp add: timeout_handler_dispatched [where kwargs = no_kwargs, OF k] fn_sum_def)
  have t2: "task (timeout_handler python37 fn_slow_socket [] (Some 10) no_kwargs
                    Done_within_timeout keep_context store0)
              = Some (Raise (Exn TimeoutError ''slow socket''))"
    by (simp add: timeout_handler_dispatched [where kwargs = no_kwargs, OF k] fn_slow_socket_def)
  have c: "\<not> isinstance_FutureTimeout python37 (class_of (Exn TimeoutError ''slow socket''))"
    by (simp add: python37_def)
  from timeout_handler_in_time
         [where kwargs = no_kwargs, OF k,
          of python37 fn_sum "[1, 2]" 10 Done_within_timeout keep_context store0]
       timeout_handler_in_time
         [where kwargs = no_kwargs, OF k,
          of python37 fn_slow_socket "[]" 10 Done_within_timeout keep_context store0]
       k m t1 t2 c
  show ?thesis by simp
qed

text \<open>
  C6, as stated, fails.  A task that returns 3 within the deadline: the calls of
  \<open>timeout_handler\<close> end with the wait on the future, and none of them shuts the
  executor down.  The same task under a timeout of \<open>10000000000\<close> seconds, above
  \<open>threading.TIMEOUT_MAX\<close>, done during the wait: the wait is refused and the call
  raises \<open>OverflowError\<close> instead of returning 3.  A task that raises \<open>concurrent.futures.TimeoutError\<close> within the deadline: its
  failure is not propagated unchanged.
\<close>

theorem timeout_handler_in_time_counterexample:
  "effects (timeout_handler python37 fn_sum [1, 2] (Some 10) no_kwargs Done_within_timeout
              keep_context store0)
     = [Executor_new None, Context_to_dict,
        Executor_submit ''run_with_ctx'', Future_result_called 10] \<and>
   Executor_shutdown
     \<notin> set (effects (timeout_handler python37 fn_sum [1, 2] (Some 10) no_kwargs
                       Done_within_timeout keep_context store0)) \<and>
   task (timeout_handler python37 fn_sum [1, 2] (Some 10000000000) no_kwargs
           Done_within_timeout keep_context store0) = Some (Return 3) \<and>
   class_of_outcome
     (result (timeout_handler python37 fn_sum [1, 2] (Some 10000000000) no_kwargs
                Done_within_timeout keep_context store0)) = Some OverflowError \<and>
   task (timeout_handler python37 fn_future_timeout [] (Some 10) no_kwargs Done_within_timeout
           keep_context store0) = Some (Raise (Exn FutureTimeout ''inner wait'')) \<and>
   result (timeout_handler python37 fn_future_timeout [] (Some 10) no_kwargs Done_within_timeout
             keep_context store0) \<noteq> Raise (Exn FutureTimeout ''inner wait'')"
proof -
  have k: "no_kwargs ''_ctx_dict'' = None" by (simp add: no_kwargs_def)
  show ?thesis
    by (simp add: timeout_handler_dispatched [where kwargs = no_kwargs, OF k]
          Future_result_def fn_future_timeout_def fn_sum_def python37_def class_of_outcome_def)
qed

text \<open>
  C7.  With a timeout and a task dispatched: the caller's thread captures its context
  (\<open>to_dict\<close>) before it submits the task; the context in which \<open>fn\<close> runs on the
  worker's thread is the snapshot taken from the caller's context at the call, whatever
  the caller's thread does to its own context after the dispatch (\<open>caller_change\<close>)
  and whatever the worker's own context was; the task is \<open>run_with_ctx\<close> on the
  worker's thread with that snapshot; and once the task has ended the worker's context
  is what it was before, whatever \<open>fn\<close> did to the restored one.
\<close>

theorem timeout_handler_context:
  assumes "kwargs ''_ctx_dict'' = None"
  shows "task (timeout_handler py fn args (Some t) kwargs prog caller_change st)
           = Some (fst (fn (to_dict (st Caller_thread)) args kwargs)) \<and>
         task (timeout_handler py fn args (Some t) kwargs prog caller_change st)
           = Some (fst (run_with_ctx Worker_thread fn args (to_dict (st Caller_thread)) kwargs
                      (st(Caller_thread := caller_change (st Caller_thread))))) \<and>
         contexts (timeout_handler py fn args (Some t) kwargs prog caller_change st) Worker_thread
           = st Worker_thread \<and>
         effects (timeout_handler py fn args (Some t) kwargs prog caller_change st)
           = [Executor_new None, Context_to_dict,
              Executor_submit ''run_with_ctx'', Future_result_called t]"
  by (simp add: timeout_handler_dispatched [where kwargs = kwargs, OF assms] run_with_ctx_eq)

theorem timeout_handler_context_witness:
  "no_kwargs ''_ctx_dict'' = None \<and>
   task (timeout_handler python37 fn_read [] (Some 10) no_kwargs Not_done_in_time
           clear_context store0)
     = Some (Return (Some 1)) \<and>
   contexts (timeout_handler python37 fn_read [] (Some 10) no_kwargs Not_done_in_time
               clear_context store0)
     Worker_thread ''flow_name'' = None \<and>
   contexts (timeout_handler python37 fn_read [] (Some 10) no_kwargs Not_done_in_time
               clear_context store0)
     Caller_thread ''flow_name'' = None"
proof -
  have k: "no_kwargs ''_ctx_dict'' = None" by (simp add: no_kwargs_def)
  have c: "contexts (timeout_handler python37 fn_read [] (Some 10) no_kwargs Not_done_in_time
                       clear_context store0)
     Caller_thread ''flow_name'' = None"
    by (simp add: timeout_handler_dispatched [where kwargs = no_kwargs, OF k] clear_context_def)
  from timeout_handler_context [where kwargs = no_kwargs, OF k,
         of python37 fn_read "[]" 10 Not_done_in_time clear_context store0] k c
  show ?thesis by (simp add: fn_read_def store0_def to_dict_def)
qed

text \<open>
  C9.  With a timeout and a key \<open>_ctx_dict\<close> among the keyword arguments, the call
  raises \<open>TypeError\<close>; the caller's thread has constructed the executor and captured the
  context and has submitted nothing, no task exists, no context has changed, and the
  outcome does not depend on \<open>fn\<close>: \<open>fn\<close> is not called, with the caller's value or with
  any other.
\<close>

theorem timeout_handler_reserved_keyword:
  assumes "kwargs ''_ctx_dict'' = Some v"
  shows "(\<exists>m. result (timeout_handler py fn args (Some t) kwargs prog caller_change st)
                = Raise (Exn TypeError m)) \<and>
         task (timeout_handler py fn args (Some t) kwargs prog caller_change st) = None \<and>
         contexts (timeout_handler py fn args (Some t) kwargs prog caller_change st) = st \<and>
         effects (timeout_handler py fn args (Some t) kwargs prog caller_change st)
           = [Executor_new None, Context_to_dict] \<and>
         timeout_handler py fn args (Some t) kwargs prog caller_change st
           = timeout_handler py fn' args (Some t) kwargs prog caller_change st"
  using assms by (simp add: timeout_handler_def Let_def)

theorem timeout_handler_reserved_keyword_witness:
  "kwargs_reserved ''_ctx_dict'' = Some 5 \<and>
   class_of_outcome (result (timeout_handler python37 fn_sum [1, 2] (Some 10) kwargs_reserved
                       Done_within_timeout keep_context store0)) = Some TypeError \<and>
   task (timeout_handler python37 fn_sum [1, 2] (Some 10) kwargs_reserved Done_within_timeout
           keep_context store0)
     = None \<and>
   effects (timeout_handler python37 fn_sum [1, 2] (Some 10) kwargs_reserved Done_within_timeout
              keep_context store0)
     = [Executor_new None, Context_to_dict]"
proof -
  have k: "kwargs_reserved ''_ctx_dict'' = Some 5" by (simp add: kwargs_reserved_def)
  from timeout_handler_reserved_keyword [where kwargs = kwargs_reserved, OF k,
         of python37 fn_sum "[1, 2]" 10 Done_within_timeout keep_context store0 fn_sum] k
  show ?thesis by (auto simp add: class_of_outcome_def)
qed

end
